theory Spec2Isabelle
  imports Main "HOL-Library.Sublist" "HOL-Library.List_Lexorder" "HOL-Library.Char_ord"
begin

section \<open>The knowledge graph manager of src/index.ts\<close>

text \<open>
  The class KnowledgeGraphManager keeps a labelled property graph in an embedded graph
  database and drives it with Cypher statements. The statements are part of the source;
  the database that runs them is not (the repository holds only the type declarations of
  its module). Each statement is therefore embedded as the function on the stored tables
  that the Cypher text denotes, and each method of the class as the sequence of statements
  it awaits, with its loops, its conditionals on the number of returned tuples and its
  try/catch blocks. The protocol adapter around the class, which only passes arguments on
  and prints results, is left out.
\<close>

subsection \<open>Interface types\<close>

text \<open>
  The TypeScript interfaces Entity, Relation, Tag and KnowledgeGraph. An optional field is
  an option. The fields from and to of Relation are \<open>fromName\<close> and \<open>toName\<close> here, the field
  name of Tag is \<open>nameOfTag\<close> and the field tags of KnowledgeGraph is \<open>graphTags\<close>, the
  source's names being taken already.
\<close>

record Entity =
  name :: string
  entityType :: string
  observations :: "string list"
  tags :: "string list option"

record Relation =
  fromName :: string
  toName :: string
  relationType :: string

record Tag =
  nameOfTag :: string
  category :: "string option"
  description :: "string option"

record KnowledgeGraph =
  entities :: "Entity list"
  relations :: "Relation list"
  graphTags :: "Tag list option"

subsection \<open>The stored graph\<close>

text \<open>
  The seven tables that initialize() declares. Entity and Tag nodes have the primary key
  name; an Observation node has a SERIAL primary key id and a content. A relationship row
  holds the keys of its two end nodes (and relationType for RELATED_TO). A relationship
  table may hold the same pair of end nodes more than once.
\<close>

record database =
  entityNodes :: "(string \<times> string) list"
  observationNodes :: "(nat \<times> string) list"
  tagNodes :: "(string \<times> string \<times> string) list"
  hasObservation :: "(string \<times> nat) list"
  relatedTo :: "(string \<times> string \<times> string) list"
  entityTaggedWith :: "(string \<times> string) list"
  observationTaggedWith :: "(nat \<times> string) list"
  nextSerial :: nat

definition emptyDatabase :: database where
  "emptyDatabase =
     \<lparr>entityNodes = [], observationNodes = [], tagNodes = [], hasObservation = [],
      relatedTo = [], entityTaggedWith = [], observationTaggedWith = [], nextSerial = 0\<rparr>"

subsection \<open>The connection, errors and sequencing\<close>

text \<open>
  A method either returns a value or throws. The two errors are the one the manager
  throws itself, \<open>new Error("Entity with name ... not found")\<close>, and a rejection of a
  statement by the database. When the database rejects a statement is outside the program:
  the connection carries the list \<open>faults\<close> that says, statement by statement, whether the
  next one is rejected (an exhausted list rejects nothing). \<open>issued\<close> counts the statements
  sent and \<open>failures\<close> the rejected ones.
\<close>

datatype error = StorageFault | NotFound

record conn =
  db :: database
  faults :: "bool list"
  issued :: nat
  failures :: nat

type_synonym 'a action = "conn \<Rightarrow> (error + 'a) \<times> conn"

definition ret :: "'a \<Rightarrow> 'a action" where
  "ret x c = (Inr x, c)"

definition throw :: "error \<Rightarrow> 'a action" where
  "throw e c = (Inl e, c)"

definition andThen :: "'a action \<Rightarrow> ('a \<Rightarrow> 'b action) \<Rightarrow> 'b action" where
  "andThen m f c = (case m c of (Inl e, c') \<Rightarrow> (Inl e, c') | (Inr x, c') \<Rightarrow> f x c')"

text \<open>\<open>try { m } catch (error) { h error }\<close>.\<close>

definition tryCatch :: "'a action \<Rightarrow> (error \<Rightarrow> 'a action) \<Rightarrow> 'a action" where
  "tryCatch m h c = (case m c of (Inl e, c') \<Rightarrow> h e c' | (Inr x, c') \<Rightarrow> (Inr x, c'))"

text \<open>
  \<open>await this.conn.query(...)\<close> and \<open>await this.conn.execute(await this.conn.prepare(...), ...)\<close>:
  one statement sent to the database, with its one result (getSingleResult), read through
  getNumTuples() or getAll(). A statement is a function on the stored graph that
  returns its result and the new graph, or None when the statement itself cannot be
  carried out (a primary key that exists already, a node deleted while relationships
  still hold it); a rejected statement changes nothing.
\<close>

definition rejectsNext :: "conn \<Rightarrow> bool" where
  "rejectsNext c = (faults c \<noteq> [] \<and> hd (faults c))"

definition execute :: "(database \<Rightarrow> ('a \<times> database) option) \<Rightarrow> 'a action" where
  "execute stmt c =
     (let c1 = c\<lparr>faults := tl (faults c), issued := Suc (issued c)\<rparr> in
      if rejectsNext c then (Inl StorageFault, c1\<lparr>failures := Suc (failures c)\<rparr>)
      else (case stmt (db c) of
              None \<Rightarrow> (Inl StorageFault, c1\<lparr>failures := Suc (failures c)\<rparr>)
            | Some (r, g) \<Rightarrow> (Inr r, c1\<lparr>db := g\<rparr>)))"

text \<open>
  An action that hands every rejection on: it ends in an error exactly when one of its
  statements was rejected, the error is that fault, and no second statement is rejected.
\<close>

definition propagates :: "'a action \<Rightarrow> bool" where
  "propagates m =
     (\<forall>c. case m c of
            (Inl err, c') \<Rightarrow> err = StorageFault \<and> failures c' = Suc (failures c)
          | (Inr x, c') \<Rightarrow> failures c' = failures c)"

text \<open>A connection to the stored graph \<open>g\<close> on which no statement is rejected from outside.\<close>

definition connect :: "database \<Rightarrow> conn" where
  "connect g = \<lparr>db = g, faults = [], issued = 0, failures = 0\<rparr>"

subsection \<open>Names written into the text of a statement\<close>

text \<open>
  createEntities and createRelations pass their strings as parameters of a prepared
  statement, and the database receives them as they are. Every other method writes a
  string into the text of the statement, between single quotes, after
  \<open>replace(/'/g, "\\'")\<close>, which puts a backslash before every quote and leaves every other
  character, the backslash too, as it is.
\<close>

definition escapeQuotes :: "string \<Rightarrow> string" where
  "escapeQuotes s = concat (map (\<lambda>ch. if ch = CHR 0x27 then [CHR 0x5C, CHR 0x27] else [ch]) s)"

text \<open>
  What the database reads from the text between the two quotes. The backslash is its
  escape character: it is dropped and the character after it is taken as it stands, which
  is how an escaped quote comes to be read as a quote. A backslash at the end escapes the
  closing quote, and a quote without a backslash closes the literal before its end; in
  both cases the text around the literal no longer is the statement that was meant, and
  it is taken to be refused (None).
\<close>

fun readLiteral :: "string \<Rightarrow> string option" where
  "readLiteral [] = Some []"
| "readLiteral [ch] = (if ch = CHR 0x5C \<or> ch = CHR 0x27 then None else Some [ch])"
| "readLiteral (ch # nxt # rest) =
     (if ch = CHR 0x5C then map_option ((#) nxt) (readLiteral rest)
      else if ch = CHR 0x27 then None
      else map_option ((#) ch) (readLiteral (nxt # rest)))"

text \<open>A statement with the literal \<open>text\<close> in it, and one with the list of literals
  \<open>texts\<close> (the list after IN): the statement for what is read, or no statement.\<close>

definition literal ::
  "string \<Rightarrow> (string \<Rightarrow> database \<Rightarrow> ('a \<times> database) option) \<Rightarrow> database \<Rightarrow> ('a \<times> database) option" where
  "literal text stmt g = (case readLiteral text of None \<Rightarrow> None | Some v \<Rightarrow> stmt v g)"

definition literals ::
  "string list \<Rightarrow> (string list \<Rightarrow> database \<Rightarrow> ('a \<times> database) option) \<Rightarrow> database \<Rightarrow> ('a \<times> database) option" where
  "literals texts stmt g =
     (if list_all (\<lambda>text. readLiteral text \<noteq> None) texts
      then stmt (map (\<lambda>text. the (readLiteral text)) texts) g
      else None)"

text \<open>A string without a backslash: the strings that the escaping carries over.\<close>

definition plain :: "string \<Rightarrow> bool" where
  "plain s = (CHR 0x5C \<notin> set s)"

subsection \<open>Statements on Entity, Observation and Tag nodes\<close>

text \<open>
  The statements, as functions of the strings the database has received or read.

  A pattern \<open>(a)-[r]->(b)\<close> has one match for every stored relationship \<open>r\<close> whose end
  nodes exist and fit; a pattern \<open>(e:Entity {name: n})\<close> has at most one match, name being
  the primary key.
\<close>

definition entityExists :: "database \<Rightarrow> string \<Rightarrow> bool" where
  "entityExists g n = (n \<in> fst ` set (entityNodes g))"

definition tagExists :: "database \<Rightarrow> string \<Rightarrow> bool" where
  "tagExists g n = (n \<in> fst ` set (tagNodes g))"

text \<open>\<^verbatim>\<open>MATCH (e:Entity {name: $name}) RETURN e.name\<close>, read through getNumTuples().\<close>

definition matchEntity :: "string \<Rightarrow> database \<Rightarrow> (nat \<times> database) option" where
  "matchEntity n g = Some (length [e \<leftarrow> entityNodes g. fst e = n], g)"

text \<open>\<^verbatim>\<open>CREATE (e:Entity {name: $name, entityType: $entityType})\<close>; name is the primary key.\<close>

definition createEntityNode :: "string \<Rightarrow> string \<Rightarrow> database \<Rightarrow> (unit \<times> database) option" where
  "createEntityNode n ty g =
     (if entityExists g n then None
      else Some ((), g\<lparr>entityNodes := entityNodes g @ [(n, ty)]\<rparr>))"

text \<open>\<^verbatim>\<open>CREATE (o:Observation {content: $content})\<close>; the id is the next serial number.\<close>

definition createObservationNode :: "string \<Rightarrow> database \<Rightarrow> (unit \<times> database) option" where
  "createObservationNode content g =
     Some ((), g\<lparr>observationNodes := observationNodes g @ [(nextSerial g, content)],
                 nextSerial := Suc (nextSerial g)\<rparr>)"

text \<open>
  \<^verbatim>\<open>MATCH (e:Entity {name: $entityName}), (o:Observation {content: $content}) CREATE (e)-[:HAS_OBSERVATION]->(o)\<close>
  one link for every Observation node of that content, whoever owns it.
\<close>

definition createHasObservation :: "string \<Rightarrow> string \<Rightarrow> database \<Rightarrow> (unit \<times> database) option" where
  "createHasObservation n content g =
     Some ((), g\<lparr>hasObservation := hasObservation g @
                   (if entityExists g n
                    then map (\<lambda>ob. (n, fst ob)) [ob \<leftarrow> observationNodes g. snd ob = content]
                    else [])\<rparr>)"

text \<open>\<^verbatim>\<open>MATCH (t:Tag {name: $name}) RETURN t.name\<close>, read through getNumTuples().\<close>

definition matchTag :: "string \<Rightarrow> database \<Rightarrow> (nat \<times> database) option" where
  "matchTag n g = Some (length [t \<leftarrow> tagNodes g. fst t = n], g)"

text \<open>\<^verbatim>\<open>CREATE (t:Tag {name: $name, category: ..., description: ...})\<close>; name is the primary key.\<close>

definition createTagNode :: "string \<Rightarrow> string \<Rightarrow> string \<Rightarrow> database \<Rightarrow> (unit \<times> database) option" where
  "createTagNode n cat desc g =
     (if tagExists g n then None
      else Some ((), g\<lparr>tagNodes := tagNodes g @ [(n, cat, desc)]\<rparr>))"

text \<open>
  \<^verbatim>\<open>MATCH (e:Entity {name: $entityName}), (t:Tag {name: $tagName}) CREATE (e)-[:ENTITY_TAGGED_WITH]->(t)\<close>
\<close>

definition createEntityTaggedWith :: "string \<Rightarrow> string \<Rightarrow> database \<Rightarrow> (unit \<times> database) option" where
  "createEntityTaggedWith n tn g =
     Some ((), g\<lparr>entityTaggedWith := entityTaggedWith g @
                   (if entityExists g n \<and> tagExists g tn then [(n, tn)] else [])\<rparr>)"

text \<open>
  \<^verbatim>\<open>MATCH (e:Entity {name: '...'})-[:ENTITY_TAGGED_WITH]->(t:Tag {name: '...'}) RETURN e\<close>,
  read through getNumTuples().
\<close>

definition matchEntityTaggedWith :: "string \<Rightarrow> string \<Rightarrow> database \<Rightarrow> (nat \<times> database) option" where
  "matchEntityTaggedWith n tn g =
     Some (length [k \<leftarrow> entityTaggedWith g. k = (n, tn) \<and> entityExists g n \<and> tagExists g tn], g)"

text \<open>The Observation nodes (id and content) that the entity named \<open>n\<close> links to, one
  for every HAS_OBSERVATION link:
  \<^verbatim>\<open>(e:Entity {name: n})-[:HAS_OBSERVATION]->(o:Observation)\<close>.\<close>

definition linkedObservations :: "database \<Rightarrow> string \<Rightarrow> (nat \<times> string) list" where
  "linkedObservations g n =
     (if entityExists g n
      then concat (map (\<lambda>l. [ob \<leftarrow> observationNodes g. fst ob = snd l])
                       [l \<leftarrow> hasObservation g. fst l = n])
      else [])"

text \<open>
  \<^verbatim>\<open>MATCH (e:Entity {name: '...'})-[:HAS_OBSERVATION]->(o:Observation {content: '...'}) RETURN o\<close>,
  read through getNumTuples().
\<close>

definition matchEntityObservation :: "string \<Rightarrow> string \<Rightarrow> database \<Rightarrow> (nat \<times> database) option" where
  "matchEntityObservation n content g =
     Some (length [ob \<leftarrow> linkedObservations g n. snd ob = content], g)"

text \<open>
  \<^verbatim>\<open>MATCH (e:Entity {name: '...'}), (o:Observation {content: '...'})
  WHERE NOT (e)-[:HAS_OBSERVATION]->(o) CREATE (e)-[:HAS_OBSERVATION]->(o)\<close>
\<close>

definition createHasObservationIfAbsent :: "string \<Rightarrow> string \<Rightarrow> database \<Rightarrow> (unit \<times> database) option" where
  "createHasObservationIfAbsent n content g =
     Some ((), g\<lparr>hasObservation := hasObservation g @
                   (if entityExists g n
                    then map (\<lambda>ob. (n, fst ob))
                           [ob \<leftarrow> observationNodes g.
                              snd ob = content \<and> (n, fst ob) \<notin> set (hasObservation g)]
                    else [])\<rparr>)"

text \<open>
  \<^verbatim>\<open>MATCH (e:Entity {name: '...'})-[:HAS_OBSERVATION]->(o:Observation {content: '...'})-[:OBSERVATION_TAGGED_WITH]->(t:Tag {name: '...'}) RETURN o\<close>,
  read through getNumTuples().
\<close>

definition matchObservationTaggedWith :: "string \<Rightarrow> string \<Rightarrow> string \<Rightarrow> database \<Rightarrow> (nat \<times> database) option" where
  "matchObservationTaggedWith n content tn g =
     Some (length (concat (map (\<lambda>ob. [k \<leftarrow> observationTaggedWith g. k = (fst ob, tn) \<and> tagExists g tn])
                               [ob \<leftarrow> linkedObservations g n. snd ob = content])), g)"

text \<open>
  \<^verbatim>\<open>MATCH (e:Entity {name: '...'})-[:HAS_OBSERVATION]->(o:Observation {content: '...'}), (t:Tag {name: '...'})
  CREATE (o)-[:OBSERVATION_TAGGED_WITH]->(t)\<close>
\<close>

definition createObservationTaggedWith :: "string \<Rightarrow> string \<Rightarrow> string \<Rightarrow> database \<Rightarrow> (unit \<times> database) option" where
  "createObservationTaggedWith n content tn g =
     Some ((), g\<lparr>observationTaggedWith := observationTaggedWith g @
                   (if tagExists g tn
                    then map (\<lambda>ob. (fst ob, tn)) [ob \<leftarrow> linkedObservations g n. snd ob = content]
                    else [])\<rparr>)"

subsection \<open>Statements on RELATED_TO\<close>

text \<open>
  \<^verbatim>\<open>MATCH (e1:Entity {name: $from})-[r:RELATED_TO {relationType: $relationType}]->(e2:Entity {name: $to}) RETURN r\<close>
  read through getNumTuples(): one tuple for every stored relationship with that triple.
\<close>

definition matchRelation :: "string \<Rightarrow> string \<Rightarrow> string \<Rightarrow> database \<Rightarrow> (nat \<times> database) option" where
  "matchRelation f t ty g =
     Some (length [r \<leftarrow> relatedTo g. r = (f, t, ty) \<and> entityExists g f \<and> entityExists g t], g)"

text \<open>
  \<^verbatim>\<open>MATCH (e1:Entity {name: $from}), (e2:Entity {name: $to}) CREATE (e1)-[:RELATED_TO {relationType: $relationType}]->(e2)\<close>
  a relationship between the two matched nodes, and none when either node is missing.
\<close>

definition createRelatedTo :: "string \<Rightarrow> string \<Rightarrow> string \<Rightarrow> database \<Rightarrow> (unit \<times> database) option" where
  "createRelatedTo f t ty g =
     Some ((), g\<lparr>relatedTo := relatedTo g @
                   (if entityExists g f \<and> entityExists g t then [(f, t, ty)] else [])\<rparr>)"

text \<open>
  \<^verbatim>\<open>MATCH (e1:Entity {name: '...'})-[r:RELATED_TO {relationType: '...'}]->(e2:Entity {name: '...'}) DELETE r\<close>
\<close>

definition deleteRelatedTo :: "string \<Rightarrow> string \<Rightarrow> string \<Rightarrow> database \<Rightarrow> (unit \<times> database) option" where
  "deleteRelatedTo f t ty g =
     Some ((), g\<lparr>relatedTo :=
                   [r \<leftarrow> relatedTo g. \<not> (r = (f, t, ty) \<and> entityExists g f \<and> entityExists g t)]\<rparr>)"


text \<open>
  The same with \<^verbatim>\<open>WHERE e1.name IN [...] AND e2.name IN [...]\<close>.
\<close>

definition returnRelationsAmong :: "string list \<Rightarrow> database \<Rightarrow> ((string \<times> string \<times> string) list \<times> database) option" where
  "returnRelationsAmong names g =
     Some ([r \<leftarrow> relatedTo g. entityExists g (fst r) \<and> entityExists g (fst (snd r)) \<and>
                                fst r \<in> set names \<and> fst (snd r) \<in> set names], g)"

subsection \<open>Statements that delete nodes and tag links\<close>

text \<open>
  \<^verbatim>\<open>MATCH (e:Entity {name: '...'}) DETACH DELETE e\<close>
  the node goes with every relationship that touches it; when no node has the name,
  nothing is deleted.
\<close>

definition detachDeleteEntity :: "string \<Rightarrow> database \<Rightarrow> (unit \<times> database) option" where
  "detachDeleteEntity n g =
     Some ((), if entityExists g n
               then g\<lparr>entityNodes := [e \<leftarrow> entityNodes g. fst e \<noteq> n],
                      hasObservation := [l \<leftarrow> hasObservation g. fst l \<noteq> n],
                      relatedTo := [r \<leftarrow> relatedTo g. fst r \<noteq> n \<and> fst (snd r) \<noteq> n],
                      entityTaggedWith := [k \<leftarrow> entityTaggedWith g. fst k \<noteq> n]\<rparr>
               else g)"

text \<open>The Observation nodes that no HAS_OBSERVATION link points to.\<close>

definition orphanObservations :: "database \<Rightarrow> (nat \<times> string) list" where
  "orphanObservations g = [ob \<leftarrow> observationNodes g. fst ob \<notin> snd ` set (hasObservation g)]"

text \<open>
  \<^verbatim>\<open>MATCH (o:Observation) WHERE NOT (o)<-[:HAS_OBSERVATION]-() DELETE o\<close>
  DELETE without DETACH: the database refuses to delete a node that still has a
  relationship, here an OBSERVATION_TAGGED_WITH link, and the statement then deletes
  nothing.
\<close>

definition deleteOrphanObservations :: "database \<Rightarrow> (unit \<times> database) option" where
  "deleteOrphanObservations g =
     (if list_ex (\<lambda>ob. fst ob \<in> fst ` set (observationTaggedWith g)) (orphanObservations g)
      then None
      else Some ((), g\<lparr>observationNodes :=
                         [ob \<leftarrow> observationNodes g. fst ob \<in> snd ` set (hasObservation g)]\<rparr>))"

text \<open>
  \<^verbatim>\<open>MATCH (e:Entity {name: '...'})-[:HAS_OBSERVATION]->(o:Observation {content: '...'}) DETACH DELETE o\<close>
\<close>

definition detachDeleteObservation :: "string \<Rightarrow> string \<Rightarrow> database \<Rightarrow> (unit \<times> database) option" where
  "detachDeleteObservation n content g =
     (let ids = map fst [ob \<leftarrow> linkedObservations g n. snd ob = content] in
      Some ((), g\<lparr>observationNodes := [ob \<leftarrow> observationNodes g. fst ob \<notin> set ids],
                  hasObservation := [l \<leftarrow> hasObservation g. snd l \<notin> set ids],
                  observationTaggedWith := [k \<leftarrow> observationTaggedWith g. fst k \<notin> set ids]\<rparr>))"

text \<open>
  \<^verbatim>\<open>MATCH (e:Entity {name: '...'})-[r:ENTITY_TAGGED_WITH]->(t:Tag {name: '...'}) DELETE r RETURN t.name AS removedTag\<close>,
  read through getNumTuples().
\<close>

definition deleteEntityTaggedWith :: "string \<Rightarrow> string \<Rightarrow> database \<Rightarrow> (nat \<times> database) option" where
  "deleteEntityTaggedWith n tn g =
     Some (length [k \<leftarrow> entityTaggedWith g. k = (n, tn) \<and> entityExists g n \<and> tagExists g tn],
           g\<lparr>entityTaggedWith :=
               [k \<leftarrow> entityTaggedWith g. \<not> (k = (n, tn) \<and> entityExists g n \<and> tagExists g tn)]\<rparr>)"

subsection \<open>Statements that read entities and tags\<close>



subsection \<open>Substring search\<close>

text \<open>toLowerCase() of the query and LOWER(...) of the stored strings, on the letters A to Z;
  a string is a list of bytes and every other byte is left as it is.\<close>

definition lowerChar :: "char \<Rightarrow> char" where
  "lowerChar ch =
     (case map_of (zip ''ABCDEFGHIJKLMNOPQRSTUVWXYZ'' ''abcdefghijklmnopqrstuvwxyz'') ch of
        Some l \<Rightarrow> l
      | None \<Rightarrow> ch)"

definition toLowerCase :: "string \<Rightarrow> string" where
  "toLowerCase s = map lowerChar s"

text \<open>\<open>hay CONTAINS needle\<close>. The database finds the empty string in no string.\<close>

fun containsStr :: "string \<Rightarrow> string \<Rightarrow> bool" where
  "containsStr hay [] = False"
| "containsStr [] (c # needle) = False"
| "containsStr (ch # hay) (c # needle) =
     (prefix (c # needle) (ch # hay) \<or> containsStr hay (c # needle))"

text \<open>
  \<^verbatim>\<open>MATCH (e:Entity)
  OPTIONAL MATCH (e)-[:HAS_OBSERVATION]->(o:Observation)
  WHERE LOWER(e.name) CONTAINS '...' OR LOWER(e.entityType) CONTAINS '...' OR LOWER(o.content) CONTAINS '...'
  WITH e, COLLECT(DISTINCT o.content) AS observations
  RETURN DISTINCT e.name AS name, e.entityType AS entityType, observations\<close>
  The WHERE follows the OPTIONAL MATCH and belongs to it: it selects which observations are
  joined to an entity, and an entity for which none is joined stays in the result with a
  null \<open>o\<close>, which COLLECT leaves out. MATCH (e:Entity) itself has no condition.
\<close>

definition searchEntities :: "string \<Rightarrow> database \<Rightarrow> ((string \<times> string \<times> string list) list \<times> database) option" where
  "searchEntities q g =
     Some (remdups
             (map (\<lambda>e. (fst e, snd e,
                         remdups (map snd
                           [ob \<leftarrow> linkedObservations g (fst e).
                              containsStr (toLowerCase (fst e)) q \<or>
                              containsStr (toLowerCase (snd e)) q \<or>
                              containsStr (toLowerCase (snd ob)) q])))
                  (entityNodes g)), g)"

subsection \<open>createRelations\<close>

text \<open>The body of the for loop of createRelations: try { ... } catch (error) { throw error }.
  It returns newRelations as the iteration leaves it.\<close>

definition createRelation :: "Relation \<Rightarrow> Relation list \<Rightarrow> Relation list action" where
  "createRelation relation newRelations =
     tryCatch
       (andThen (execute (matchRelation (fromName relation) (toName relation) (relationType relation)))
          (\<lambda>numTuples.
             if numTuples = 0 then
               andThen (execute (createRelatedTo (fromName relation) (toName relation) (relationType relation)))
                 (\<lambda>_. ret (newRelations @
                            [\<lparr>fromName = fromName relation, toName = toName relation,
                              relationType = relationType relation\<rparr>]))
             else ret newRelations))
       (\<lambda>error. throw error)"

fun createRelationsLoop :: "Relation list \<Rightarrow> Relation list \<Rightarrow> Relation list action" where
  "createRelationsLoop [] newRelations = ret newRelations"
| "createRelationsLoop (relation # rest) newRelations =
     andThen (createRelation relation newRelations) (createRelationsLoop rest)"

definition createRelations :: "Relation list \<Rightarrow> Relation list action" where
  "createRelations rels = createRelationsLoop rels []"

subsection \<open>createEntities\<close>

text \<open>The loop over entity.observations.\<close>

fun createObservations :: "string \<Rightarrow> string list \<Rightarrow> unit action" where
  "createObservations entityName [] = ret ()"
| "createObservations entityName (observation # rest) =
     andThen (execute (createObservationNode observation))
       (\<lambda>_. andThen (execute (createHasObservation entityName observation))
          (\<lambda>_. createObservations entityName rest))"

text \<open>The loop over entity.tags.\<close>

fun createEntityTags :: "string \<Rightarrow> string list \<Rightarrow> unit action" where
  "createEntityTags entityName [] = ret ()"
| "createEntityTags entityName (tagName # rest) =
     andThen (execute (matchTag tagName))
       (\<lambda>numTuples.
          andThen (if numTuples = 0 then execute (createTagNode tagName '''' '''') else ret ())
            (\<lambda>_. andThen (execute (createEntityTaggedWith entityName tagName))
               (\<lambda>_. createEntityTags entityName rest)))"

text \<open>The body of the loop over the entities: try { ... } catch (error) { throw error }.\<close>

definition createEntity :: "Entity \<Rightarrow> Entity list \<Rightarrow> Entity list action" where
  "createEntity entity newEntities =
     tryCatch
       (andThen (execute (matchEntity (name entity)))
          (\<lambda>numTuples.
             if numTuples = 0 then
               andThen (execute (createEntityNode (name entity) (entityType entity)))
                 (\<lambda>_. andThen (createObservations (name entity) (observations entity))
                    (\<lambda>_. andThen
                            (case tags entity of
                               Some ts \<Rightarrow> if length ts > 0 then createEntityTags (name entity) ts else ret ()
                             | None \<Rightarrow> ret ())
                            (\<lambda>_. ret (newEntities @
                                       [\<lparr>name = name entity, entityType = entityType entity,
                                         observations = observations entity,
                                         tags = Some (case tags entity of Some ts \<Rightarrow> ts | None \<Rightarrow> [])\<rparr>]))))
             else ret newEntities))
       (\<lambda>error. throw error)"

fun createEntitiesLoop :: "Entity list \<Rightarrow> Entity list \<Rightarrow> Entity list action" where
  "createEntitiesLoop [] newEntities = ret newEntities"
| "createEntitiesLoop (entity # rest) newEntities =
     andThen (createEntity entity newEntities) (createEntitiesLoop rest)"

definition createEntities :: "Entity list \<Rightarrow> Entity list action" where
  "createEntities ents = createEntitiesLoop ents []"

subsection \<open>addObservations\<close>

text \<open>
  An entry of the argument is the pair of its entityName and its contents, an entry of the
  result the pair of entityName and addedObservations. Every statement is built with the
  escaped entity name and the escaped content in its text. The inner loop catches what a
  content throws and goes on; the outer try rethrows.
\<close>

definition addObservation :: "string \<Rightarrow> string \<Rightarrow> string list \<Rightarrow> string list action" where
  "addObservation entityName content addedObservations =
     tryCatch
       (andThen
          (execute (literal (escapeQuotes entityName)
                      (\<lambda>n. literal (escapeQuotes content) (matchEntityObservation n))))
          (\<lambda>numTuples.
             if numTuples = 0 then
               andThen (execute (literal (escapeQuotes content) createObservationNode))
                 (\<lambda>_. andThen
                         (execute (literal (escapeQuotes entityName)
                                     (\<lambda>n. literal (escapeQuotes content)
                                            (createHasObservationIfAbsent n))))
                         (\<lambda>_. ret (addedObservations @ [content])))
             else ret addedObservations))
       (\<lambda>error. ret addedObservations)"

fun addObservationContents :: "string \<Rightarrow> string list \<Rightarrow> string list \<Rightarrow> string list action" where
  "addObservationContents entityName [] addedObservations = ret addedObservations"
| "addObservationContents entityName (content # rest) addedObservations =
     andThen (addObservation entityName content addedObservations)
       (addObservationContents entityName rest)"

definition addObservationsEntry ::
  "string \<times> string list \<Rightarrow> (string \<times> string list) list \<Rightarrow> (string \<times> string list) list action" where
  "addObservationsEntry obs results =
     tryCatch
       (andThen (execute (literal (escapeQuotes (fst obs)) matchEntity))
          (\<lambda>numTuples.
             if numTuples = 0 then throw NotFound
             else andThen (addObservationContents (fst obs) (snd obs) [])
                    (\<lambda>addedObservations. ret (results @ [(fst obs, addedObservations)]))))
       (\<lambda>error. throw error)"

fun addObservationsLoop ::
  "(string \<times> string list) list \<Rightarrow> (string \<times> string list) list \<Rightarrow> (string \<times> string list) list action" where
  "addObservationsLoop [] results = ret results"
| "addObservationsLoop (obs # rest) results =
     andThen (addObservationsEntry obs results) (addObservationsLoop rest)"

definition addObservations :: "(string \<times> string list) list \<Rightarrow> (string \<times> string list) list action" where
  "addObservations obsList = addObservationsLoop obsList []"

subsection \<open>tagEntity and tagObservation\<close>

text \<open>Every statement of the two is built with the escaped names in its text.\<close>

definition tagEntityWith :: "string \<Rightarrow> string \<Rightarrow> string list \<Rightarrow> string list action" where
  "tagEntityWith entityName tagName addedTags =
     tryCatch
       (andThen (execute (literal (escapeQuotes tagName) matchTag))
          (\<lambda>numTuples.
             andThen
               (if numTuples = 0
                then execute (literal (escapeQuotes tagName) (\<lambda>t. createTagNode t '''' ''''))
                else ret ())
               (\<lambda>_. andThen
                       (execute (literal (escapeQuotes entityName)
                                   (\<lambda>n. literal (escapeQuotes tagName) (matchEntityTaggedWith n))))
                       (\<lambda>linked.
                          if linked = 0 then
                            andThen
                              (execute (literal (escapeQuotes entityName)
                                          (\<lambda>n. literal (escapeQuotes tagName)
                                                 (createEntityTaggedWith n))))
                              (\<lambda>_. ret (addedTags @ [tagName]))
                          else ret addedTags))))
       (\<lambda>error. ret addedTags)"

fun tagEntityLoop :: "string \<Rightarrow> string list \<Rightarrow> string list \<Rightarrow> string list action" where
  "tagEntityLoop entityName [] addedTags = ret addedTags"
| "tagEntityLoop entityName (tagName # rest) addedTags =
     andThen (tagEntityWith entityName tagName addedTags) (tagEntityLoop entityName rest)"

definition tagEntity :: "string \<Rightarrow> string list \<Rightarrow> string list action" where
  "tagEntity entityName tagNames =
     tryCatch
       (andThen (execute (literal (escapeQuotes entityName) matchEntity))
          (\<lambda>numTuples.
             if numTuples = 0 then throw NotFound
             else tagEntityLoop entityName tagNames []))
       (\<lambda>error. throw error)"

definition tagObservationWith :: "string \<Rightarrow> string \<Rightarrow> string \<Rightarrow> string list \<Rightarrow> string list action" where
  "tagObservationWith entityName observationContent tagName addedTags =
     tryCatch
       (andThen (execute (literal (escapeQuotes tagName) matchTag))
          (\<lambda>numTuples.
             andThen
               (if numTuples = 0
                then execute (literal (escapeQuotes tagName) (\<lambda>t. createTagNode t '''' ''''))
                else ret ())
               (\<lambda>_. andThen
                       (execute (literal (escapeQuotes entityName)
                                   (\<lambda>n. literal (escapeQuotes observationContent)
                                          (\<lambda>content. literal (escapeQuotes tagName)
                                                       (matchObservationTaggedWith n content)))))
                       (\<lambda>linked.
                          if linked = 0 then
                            andThen
                              (execute (literal (escapeQuotes entityName)
                                          (\<lambda>n. literal (escapeQuotes observationContent)
                                                 (\<lambda>content. literal (escapeQuotes tagName)
                                                              (createObservationTaggedWith n content)))))
                              (\<lambda>_. ret (addedTags @ [tagName]))
                          else ret addedTags))))
       (\<lambda>error. ret addedTags)"

fun tagObservationLoop :: "string \<Rightarrow> string \<Rightarrow> string list \<Rightarrow> string list \<Rightarrow> string list action" where
  "tagObservationLoop entityName observationContent [] addedTags = ret addedTags"
| "tagObservationLoop entityName observationContent (tagName # rest) addedTags =
     andThen (tagObservationWith entityName observationContent tagName addedTags)
       (tagObservationLoop entityName observationContent rest)"

definition tagObservation :: "string \<Rightarrow> string \<Rightarrow> string list \<Rightarrow> string list action" where
  "tagObservation entityName observationContent tagNames =
     tryCatch (tagObservationLoop entityName observationContent tagNames [])
       (\<lambda>error. throw error)"

subsection \<open>deleteEntities, deleteObservations, deleteRelations, removeTagsFromEntity\<close>

text \<open>Each of these builds its statement with the escaped names in the text, catches
  what an item throws, logs it and goes on to the next item.\<close>

definition deleteEntity :: "string \<Rightarrow> unit action" where
  "deleteEntity entityName =
     tryCatch
       (andThen (execute (literal (escapeQuotes entityName) detachDeleteEntity))
          (\<lambda>_. execute deleteOrphanObservations))
       (\<lambda>error. ret ())"

fun deleteEntities :: "string list \<Rightarrow> unit action" where
  "deleteEntities [] = ret ()"
| "deleteEntities (entityName # rest) =
     andThen (deleteEntity entityName) (\<lambda>_. deleteEntities rest)"

definition deleteObservation :: "string \<Rightarrow> string \<Rightarrow> unit action" where
  "deleteObservation entityName observation =
     tryCatch
       (execute (literal (escapeQuotes entityName)
                   (\<lambda>n. literal (escapeQuotes observation) (detachDeleteObservation n))))
       (\<lambda>error. ret ())"

text \<open>The inner loop over deletion.observations.\<close>

fun deleteObservationsOf :: "string \<Rightarrow> string list \<Rightarrow> unit action" where
  "deleteObservationsOf entityName [] = ret ()"
| "deleteObservationsOf entityName (observation # rest) =
     andThen (deleteObservation entityName observation)
       (\<lambda>_. deleteObservationsOf entityName rest)"

fun deleteObservations :: "(string \<times> string list) list \<Rightarrow> unit action" where
  "deleteObservations [] = ret ()"
| "deleteObservations (deletion # rest) =
     andThen (deleteObservationsOf (fst deletion) (snd deletion))
       (\<lambda>_. deleteObservations rest)"

definition deleteRelation :: "Relation \<Rightarrow> unit action" where
  "deleteRelation relation =
     tryCatch
       (execute (literal (escapeQuotes (fromName relation))
                   (\<lambda>f. literal (escapeQuotes (toName relation))
                          (\<lambda>t. literal (escapeQuotes (relationType relation))
                                 (\<lambda>ty. deleteRelatedTo f t ty)))))
       (\<lambda>error. ret ())"

fun deleteRelations :: "Relation list \<Rightarrow> unit action" where
  "deleteRelations [] = ret ()"
| "deleteRelations (relation # rest) =
     andThen (deleteRelation relation) (\<lambda>_. deleteRelations rest)"

definition removeTagFromEntity :: "string \<Rightarrow> string \<Rightarrow> string list \<Rightarrow> string list action" where
  "removeTagFromEntity entityName tagName removedTags =
     tryCatch
       (andThen
          (execute (literal (escapeQuotes entityName)
                      (\<lambda>n. literal (escapeQuotes tagName) (deleteEntityTaggedWith n))))
          (\<lambda>numTuples. if numTuples > 0 then ret (removedTags @ [tagName]) else ret removedTags))
       (\<lambda>error. ret removedTags)"

fun removeTagsLoop :: "string \<Rightarrow> string list \<Rightarrow> string list \<Rightarrow> string list action" where
  "removeTagsLoop entityName [] removedTags = ret removedTags"
| "removeTagsLoop entityName (tagName # rest) removedTags =
     andThen (removeTagFromEntity entityName tagName removedTags) (removeTagsLoop entityName rest)"

definition removeTagsFromEntity :: "string \<Rightarrow> string list \<Rightarrow> string list action" where
  "removeTagsFromEntity entityName tagNames = removeTagsLoop entityName tagNames []"

subsection \<open>getAllTags, readGraph and searchNodes\<close>


definition toRelation :: "string \<times> string \<times> string \<Rightarrow> Relation" where
  "toRelation row = \<lparr>fromName = fst row, toName = fst (snd row), relationType = snd (snd row)\<rparr>"



text \<open>The names in the order in which \<open>new Set\<close> first received them.\<close>

definition namesOfSet :: "string list \<Rightarrow> string list" where
  "namesOfSet names = rev (remdups (rev names))"

text \<open>The lower-cased query is escaped and written into the text of the first statement,
  the names of the entities found are escaped and written into the list of the second.\<close>

definition searchNodes :: "string \<Rightarrow> KnowledgeGraph action" where
  "searchNodes query =
     tryCatch
       (andThen (execute (literal (escapeQuotes (toLowerCase query)) searchEntities))
          (\<lambda>rows.
             andThen
               (if length (namesOfSet (map fst rows)) > 0 then
                  andThen (execute (literals (map escapeQuotes (namesOfSet (map fst rows)))
                                      returnRelationsAmong))
                    (\<lambda>relationRows. ret (map toRelation relationRows))
                else ret [])
               (\<lambda>rels.
                  ret \<lparr>entities =
                         map (\<lambda>row. \<lparr>name = fst row, entityType = fst (snd row),
                                      observations = [obs \<leftarrow> snd (snd row). obs \<noteq> []],
                                      tags = None\<rparr>) rows,
                       relations = rels,
                       graphTags = None\<rparr>)))
       (\<lambda>error. throw error)"

subsection \<open>What readGraph shows of a stored graph\<close>


definition detached :: "string \<Rightarrow> database \<Rightarrow> database" where
  "detached n g = snd (the (detachDeleteEntity n g))"


subsection \<open>A stored graph to run the methods on\<close>

text \<open>
  The graph of the README's examples: John_Smith, a person with the observation
  "Speaks fluent Spanish", works at Anthropic, a company without observations.
\<close>

definition sampleDatabase :: database where
  "sampleDatabase =
     \<lparr>entityNodes = [(''John_Smith'', ''person''), (''Anthropic'', ''company'')],
      observationNodes = [(0, ''Speaks fluent Spanish'')],
      tagNodes = [],
      hasObservation = [(''John_Smith'', 0)],
      relatedTo = [(''John_Smith'', ''Anthropic'', ''works_at'')],
      entityTaggedWith = [], observationTaggedWith = [], nextSerial = 1\<rparr>"

section \<open>Properties\<close>

lemmas action_defs = ret_def throw_def andThen_def tryCatch_def execute_def rejectsNext_def connect_def

subsection \<open>Statements on a connection that rejects nothing\<close>

lemma execute_quiet:
  "faults c = [] \<Longrightarrow> stmt (db c) = Some (r, g) \<Longrightarrow>
   execute stmt c = (Inr r, c\<lparr>db := g, issued := Suc (issued c)\<rparr>)"
  by (cases c) (simp add: execute_def rejectsNext_def)

lemma filter_fst_nil: "(filter (\<lambda>e. fst e = n) xs = []) = (n \<notin> fst ` set xs)"
  by (induction xs) auto

subsection \<open>Strings that the escaping carries over\<close>

lemma readLiteral_char:
  "ch \<noteq> CHR 0x5C \<Longrightarrow> ch \<noteq> CHR 0x27 \<Longrightarrow>
   readLiteral (ch # body) = map_option ((#) ch) (readLiteral body)"
  by (cases body) simp_all

lemma readLiteral_escaped_quote:
  "readLiteral (CHR 0x5C # CHR 0x27 # body) = map_option ((#) CHR 0x27) (readLiteral body)"
  by simp

text \<open>A string without a backslash is read back as it was.\<close>

lemma readLiteral_escapeQuotes: "plain s \<Longrightarrow> readLiteral (escapeQuotes s) = Some s"
proof (induction s)
  case Nil
  show ?case by (simp add: escapeQuotes_def)
next
  case (Cons ch s)
  then have ih: "readLiteral (escapeQuotes s) = Some s" and ch: "ch \<noteq> CHR 0x5C"
    by (auto simp: plain_def)
  show ?case
  proof (cases "ch = CHR 0x27")
    case True
    then have "escapeQuotes (ch # s) = CHR 0x5C # CHR 0x27 # escapeQuotes s"
      by (simp add: escapeQuotes_def)
    then show ?thesis using ih True by (simp only: readLiteral_escaped_quote) simp
  next
    case False
    then have "escapeQuotes (ch # s) = ch # escapeQuotes s"
      by (simp add: escapeQuotes_def)
    then show ?thesis using ih ch False by (simp add: readLiteral_char)
  qed
qed

lemma literal_plain: "plain s \<Longrightarrow> literal (escapeQuotes s) stmt = stmt s"
  by (rule ext) (simp add: literal_def readLiteral_escapeQuotes)



subsection \<open>createRelations\<close>

text \<open>
  For every relation with a missing endpoint, when the database rejects nothing: the call
  sends its two statements, stores nothing and returns the relation as a new one.
\<close>

lemma createRelations_missing_endpoint:
  assumes "faults c = []"
    and "\<not> (entityExists (db c) (fromName r) \<and> entityExists (db c) (toName r))"
  shows "createRelations [r] c = (Inr [r], c\<lparr>issued := Suc (Suc (issued c))\<rparr>)"
  using assms
  by (cases c; cases r)
     (auto simp: createRelations_def createRelation_def action_defs matchRelation_def
        createRelatedTo_def)

text \<open>
  C1. createRelations reports a relation as created although no edge was stored: on the
  empty graph, where neither endpoint exists, the call for the one relation
  Alice -works_at-> Acme returns that relation, raises nothing, and the RELATED_TO table
  is as empty as before.
\<close>

theorem createRelations_reports_uncreated_edge:
  "createRelations [\<lparr>fromName = ''Alice'', toName = ''Acme'', relationType = ''works_at''\<rparr>]
     (connect emptyDatabase) =
   (Inr [\<lparr>fromName = ''Alice'', toName = ''Acme'', relationType = ''works_at''\<rparr>],
    \<lparr>db = emptyDatabase, faults = [], issued = 2, failures = 0\<rparr>)"
  by (simp add: createRelations_def createRelation_def action_defs matchRelation_def
      createRelatedTo_def entityExists_def emptyDatabase_def)

subsection \<open>tagObservation\<close>

lemma linkedObservations_tagNodes:
  "linkedObservations (g\<lparr>tagNodes := ts\<rparr>) n = linkedObservations g n"
  by (simp add: linkedObservations_def entityExists_def)

text \<open>
  For every entity name and content that no observation of the entity has (names without
  a backslash), when the database rejects nothing: the call for one tag stores no link
  and returns the tag as an added one.
\<close>

lemma tagObservation_missing_observation:
  assumes "faults c = []"
    and "plain entityName" "plain observationContent" "plain tagName"
    and "[ob \<leftarrow> linkedObservations (db c) entityName. snd ob = observationContent] = []"
  shows "\<exists>c'. tagObservation entityName observationContent [tagName] c = (Inr [tagName], c') \<and>
              observationTaggedWith (db c') = observationTaggedWith (db c)"
  using assms
  by (cases c)
     (simp add: tagObservation_def tagObservationWith_def action_defs literal_plain matchTag_def
        createTagNode_def matchObservationTaggedWith_def createObservationTaggedWith_def
        linkedObservations_tagNodes tagExists_def filter_fst_nil)

text \<open>
  C2. tagObservation reports tags it did not add: John_Smith has no observation
  "Graduated in 2019", no OBSERVATION_TAGGED_WITH link is stored and nothing is raised, but
  the returned addedTags is ["vip"], not the empty list.
\<close>

theorem tagObservation_reports_unadded_tag:
  "tagObservation ''John_Smith'' ''Graduated in 2019'' [''vip''] (connect sampleDatabase) =
   (Inr [''vip''],
    \<lparr>db = sampleDatabase\<lparr>tagNodes := [(''vip'', '''', '''')]\<rparr>,
     faults = [], issued = 4, failures = 0\<rparr>)"
  by (simp add: tagObservation_def tagObservationWith_def action_defs literal_plain plain_def
      matchTag_def createTagNode_def matchObservationTaggedWith_def
      createObservationTaggedWith_def linkedObservations_def entityExists_def tagExists_def
      sampleDatabase_def)






subsection \<open>searchNodes\<close>

lemma containsStr_empty: "containsStr s [] = False"
  by simp



text \<open>
  C8. searchNodes does not filter the entities by the query. On the sample graph the query
  SPANISH is found, case-insensitively, in an observation of John_Smith and nowhere in
  Anthropic (name Anthropic, type company, no observation); searchNodes returns both
  entities, and with them the relation between the two.
\<close>

theorem searchNodes_returns_unmatched_entity:
  "fst (searchNodes ''SPANISH'' (connect sampleDatabase)) =
   Inr \<lparr>entities =
          [\<lparr>name = ''John_Smith'', entityType = ''person'',
            observations = [''Speaks fluent Spanish''], tags = None\<rparr>,
           \<lparr>name = ''Anthropic'', entityType = ''company'', observations = [], tags = None\<rparr>],
        relations =
          [\<lparr>fromName = ''John_Smith'', toName = ''Anthropic'', relationType = ''works_at''\<rparr>],
        graphTags = None\<rparr>"
  by (simp add: searchNodes_def action_defs literal_plain literals_def
      readLiteral_escapeQuotes plain_def searchEntities_def returnRelationsAmong_def
      linkedObservations_def entityExists_def sampleDatabase_def toLowerCase_def lowerChar_def
      namesOfSet_def toRelation_def)




subsection \<open>createEntities\<close>

lemma createObservations_quiet:
  "faults c = [] \<Longrightarrow>
   \<exists>c'. createObservations n obs c = (Inr (), c') \<and> faults c' = [] \<and>
        entityNodes (db c') = entityNodes (db c)"
proof (induction obs arbitrary: c)
  case Nil
  then show ?case by (simp add: ret_def)
next
  case (Cons ob obs)
  let ?g1 = "snd (the (createObservationNode ob (db c)))"
  let ?c1 = "c\<lparr>db := ?g1, issued := Suc (issued c)\<rparr>"
  let ?g2 = "snd (the (createHasObservation n ob ?g1))"
  let ?c2 = "?c1\<lparr>db := ?g2, issued := Suc (issued ?c1)\<rparr>"
  have e1: "execute (createObservationNode ob) c = (Inr (), ?c1)"
    using Cons.prems by (intro execute_quiet) (simp_all add: createObservationNode_def)
  have e2: "execute (createHasObservation n ob) ?c1 = (Inr (), ?c2)"
    using Cons.prems by (intro execute_quiet) (simp_all add: createHasObservation_def)
  have q: "faults ?c2 = []" using Cons.prems by simp
  have ent: "entityNodes (db ?c2) = entityNodes (db c)"
    by (simp add: createObservationNode_def createHasObservation_def)
  obtain c' where r: "createObservations n obs ?c2 = (Inr (), c')" "faults c' = []"
      "entityNodes (db c') = entityNodes (db ?c2)"
    using Cons.IH[OF q] by blast
  have "createObservations n (ob # obs) c = (Inr (), c')"
    using e1 e2 r(1) by (simp add: andThen_def)
  then show ?case using r(2,3) ent by simp
qed

lemma createEntityTags_quiet:
  "faults c = [] \<Longrightarrow>
   \<exists>c'. createEntityTags n ts c = (Inr (), c') \<and> faults c' = [] \<and>
        entityNodes (db c') = entityNodes (db c)"
proof (induction ts arbitrary: c)
  case Nil
  then show ?case by (simp add: ret_def)
next
  case (Cons t ts)
  let ?k = "length [x \<leftarrow> tagNodes (db c). fst x = t]"
  let ?c1 = "c\<lparr>issued := Suc (issued c)\<rparr>"
  have e1: "execute (matchTag t) c = (Inr ?k, ?c1)"
    using Cons.prems by (cases c) (simp add: execute_def rejectsNext_def matchTag_def)
  have "\<exists>c2. (if ?k = 0 then execute (createTagNode t [] []) else ret ()) ?c1 = (Inr (), c2) \<and>
          faults c2 = [] \<and> entityNodes (db c2) = entityNodes (db c)"
    using Cons.prems
    by (cases c) (simp add: execute_def rejectsNext_def ret_def createTagNode_def tagExists_def filter_fst_nil)
  then obtain c2 where e2: "(if ?k = 0 then execute (createTagNode t [] []) else ret ()) ?c1 = (Inr (), c2)"
     and q2: "faults c2 = []" and n2: "entityNodes (db c2) = entityNodes (db c)" by blast
  let ?c3 = "c2\<lparr>db := snd (the (createEntityTaggedWith n t (db c2))), issued := Suc (issued c2)\<rparr>"
  have e3: "execute (createEntityTaggedWith n t) c2 = (Inr (), ?c3)"
    using q2 by (intro execute_quiet) (simp_all add: createEntityTaggedWith_def)
  have q3: "faults ?c3 = []" using q2 by simp
  have n3: "entityNodes (db ?c3) = entityNodes (db c)"
    using n2 by (simp add: createEntityTaggedWith_def)
  obtain c' where r: "createEntityTags n ts ?c3 = (Inr (), c')" "faults c' = []"
      "entityNodes (db c') = entityNodes (db ?c3)"
    using Cons.IH[OF q3] by blast
  have "createEntityTags n (t # ts) c = (Inr (), c')"
    using e1 e2 e3 r(1) by (simp add: andThen_def)
  then show ?case using r(2,3) n3 by simp
qed

lemma createEntity_existing:
  assumes "faults c = []" "entityExists (db c) (name e)"
  shows "createEntity e acc c = (Inr acc, c\<lparr>issued := Suc (issued c)\<rparr>)"
  using assms
  by (cases c) (simp add: createEntity_def action_defs matchEntity_def entityExists_def filter_fst_nil)

lemma createEntity_fresh:
  assumes "faults c = []" "\<not> entityExists (db c) (name e)"
  shows "\<exists>c'. createEntity e acc c =
           (Inr (acc @ [e\<lparr>tags := Some (case tags e of Some ts \<Rightarrow> ts | None \<Rightarrow> [])\<rparr>]), c') \<and>
         faults c' = [] \<and> entityExists (db c') (name e)"
proof -
  let ?c1 = "c\<lparr>issued := Suc (issued c)\<rparr>"
  let ?c2 = "?c1\<lparr>db := (db c)\<lparr>entityNodes := entityNodes (db c) @ [(name e, entityType e)]\<rparr>, issued := Suc (issued ?c1)\<rparr>"
  have e1: "execute (matchEntity (name e)) c = (Inr 0, ?c1)"
    using assms by (cases c) (simp add: execute_def rejectsNext_def matchEntity_def entityExists_def filter_fst_nil)
  have e2: "execute (createEntityNode (name e) (entityType e)) ?c1 = (Inr (), ?c2)"
    using assms by (intro execute_quiet) (simp_all add: createEntityNode_def)
  have q2: "faults ?c2 = []" using assms by simp
  obtain c3 where e3: "createObservations (name e) (observations e) ?c2 = (Inr (), c3)" "faults c3 = []"
       "entityNodes (db c3) = entityNodes (db ?c2)"
    using createObservations_quiet[OF q2] by blast
  have "\<exists>c4. (case tags e of
                               Some ts \<Rightarrow> if length ts > 0 then createEntityTags (name e) ts else ret ()
                             | None \<Rightarrow> ret ()) c3 = (Inr (), c4) \<and> faults c4 = [] \<and>
       entityNodes (db c4) = entityNodes (db c3)"
    using createEntityTags_quiet[OF e3(2)] e3(2) by (simp add: ret_def split: option.split)
  then obtain c4 where e4: "(case tags e of
                               Some ts \<Rightarrow> if length ts > 0 then createEntityTags (name e) ts else ret ()
                             | None \<Rightarrow> ret ()) c3 = (Inr (), c4)" "faults c4 = []"
       "entityNodes (db c4) = entityNodes (db c3)"
    by blast
  have ex: "entityExists (db c4) (name e)"
    using e4(3) e3(3) by (simp add: entityExists_def)
  have "createEntity e acc c =
           (Inr (acc @ [e\<lparr>tags := Some (case tags e of Some ts \<Rightarrow> ts | None \<Rightarrow> [])\<rparr>]), c4)"
    unfolding createEntity_def tryCatch_def andThen_def
    using e1 e2 e3(1) e4(1) by (cases e) (simp add: ret_def)
  then show ?thesis using e4(2) ex by blast
qed

text \<open>
  C6. When the database rejects nothing and no entity of that name is stored yet, the first
  createEntities([e]) returns the list of e alone (with tags [] where e has none), and the
  second, on the graph the first one left, returns the empty list and leaves the whole
  stored graph as it was: the entity, its observations and its tag links with it.
\<close>

theorem createEntities_twice:
  assumes "faults c = []" "\<not> entityExists (db c) (name e)"
  shows "\<exists>c1 c2. createEntities [e] c =
                    (Inr [e\<lparr>tags := Some (case tags e of Some ts \<Rightarrow> ts | None \<Rightarrow> [])\<rparr>], c1) \<and>
                  entityExists (db c1) (name e) \<and>
                  createEntities [e] c1 = (Inr [], c2) \<and> db c2 = db c1"
proof -
  obtain c1 where a: "createEntity e [] c =
           (Inr ([] @ [e\<lparr>tags := Some (case tags e of Some ts \<Rightarrow> ts | None \<Rightarrow> [])\<rparr>]), c1)"
     "faults c1 = []" "entityExists (db c1) (name e)"
    using createEntity_fresh[OF assms] by blast
  have b: "createEntity e [] c1 = (Inr [], c1\<lparr>issued := Suc (issued c1)\<rparr>)"
    using createEntity_existing[OF a(2,3)] .
  show ?thesis using a(1,3) b by (simp add: createEntities_def andThen_def ret_def)
qed

text \<open>John_Smith of the README, with a tag, created twice on the empty graph.\<close>

theorem createEntities_twice_witness:
  "faults (connect emptyDatabase) = [] \<and>
   \<not> entityExists (db (connect emptyDatabase)) ''John_Smith'' \<and>
   (\<exists>c1 c2.
      createEntities
        [\<lparr>name = ''John_Smith'', entityType = ''person'',
          observations = [''Speaks fluent Spanish''], tags = Some [''vip'']\<rparr>]
        (connect emptyDatabase) =
        (Inr [\<lparr>name = ''John_Smith'', entityType = ''person'',
               observations = [''Speaks fluent Spanish''], tags = Some [''vip'']\<rparr>], c1) \<and>
      entityExists (db c1) ''John_Smith'' \<and>
      createEntities
        [\<lparr>name = ''John_Smith'', entityType = ''person'',
          observations = [''Speaks fluent Spanish''], tags = Some [''vip'']\<rparr>] c1 = (Inr [], c2) \<and>
      db c2 = db c1)"
  using createEntities_twice[of "connect emptyDatabase"
      "\<lparr>name = ''John_Smith'', entityType = ''person'',
        observations = [''Speaks fluent Spanish''], tags = Some [''vip'']\<rparr>"]
  by (simp add: connect_def emptyDatabase_def entityExists_def)

subsection \<open>The methods that catch\<close>

lemma execute_issued: "issued (snd (execute stmt c)) = Suc (issued c)"
  by (simp add: execute_def rejectsNext_def Let_def split: option.split prod.split)

lemma deleteEntity_caught:
  "fst (deleteEntity n c) = Inr () \<and> Suc (issued c) \<le> issued (snd (deleteEntity n c))"
  by (simp add: deleteEntity_def tryCatch_def andThen_def ret_def execute_def rejectsNext_def Let_def
        literal_def detachDeleteEntity_def split: option.split prod.split sum.split)

lemma deleteEntities_caught:
  "fst (deleteEntities ns c) = Inr () \<and> issued c + length ns \<le> issued (snd (deleteEntities ns c))"
proof (induction ns arbitrary: c)
  case Nil
  show ?case by (simp add: ret_def)
next
  case (Cons n ns)
  obtain c1 where s: "deleteEntity n c = (Inr (), c1)" and i: "Suc (issued c) \<le> issued c1"
    using deleteEntity_caught[of n c] by (cases "deleteEntity n c") auto
  have "deleteEntities (n # ns) c = deleteEntities ns c1"
    using s by (simp add: andThen_def)
  then show ?case using Cons.IH[of c1] i by simp
qed

lemma deleteObservation_caught:
  "fst (deleteObservation n ob c) = Inr () \<and> issued (snd (deleteObservation n ob c)) = Suc (issued c)"
  by (simp add: deleteObservation_def tryCatch_def ret_def execute_def rejectsNext_def Let_def
        split: option.split prod.split sum.split)

lemma deleteObservationsOf_caught:
  "fst (deleteObservationsOf n obs c) = Inr () \<and>
   issued (snd (deleteObservationsOf n obs c)) = issued c + length obs"
proof (induction obs arbitrary: c)
  case Nil
  show ?case by (simp add: ret_def)
next
  case (Cons ob obs)
  obtain c1 where s: "deleteObservation n ob c = (Inr (), c1)" and i: "issued c1 = Suc (issued c)"
    using deleteObservation_caught[of n ob c] by (cases "deleteObservation n ob c") auto
  have "deleteObservationsOf n (ob # obs) c = deleteObservationsOf n obs c1"
    using s by (simp add: andThen_def)
  then show ?case using Cons.IH[of c1] i by simp
qed

lemma deleteObservations_caught:
  "fst (deleteObservations ds c) = Inr () \<and>
   issued (snd (deleteObservations ds c)) = issued c + length (concat (map snd ds))"
proof (induction ds arbitrary: c)
  case Nil
  show ?case by (simp add: ret_def)
next
  case (Cons d ds)
  obtain c1 where s: "deleteObservationsOf (fst d) (snd d) c = (Inr (), c1)"
      and i: "issued c1 = issued c + length (snd d)"
    using deleteObservationsOf_caught[of "fst d" "snd d" c]
    by (cases "deleteObservationsOf (fst d) (snd d) c") auto
  have "deleteObservations (d # ds) c = deleteObservations ds c1"
    using s by (simp add: andThen_def)
  then show ?case using Cons.IH[of c1] i by simp
qed

lemma deleteRelation_caught:
  "fst (deleteRelation r c) = Inr () \<and> issued (snd (deleteRelation r c)) = Suc (issued c)"
  by (simp add: deleteRelation_def tryCatch_def ret_def execute_def rejectsNext_def Let_def
        split: option.split prod.split sum.split)

lemma deleteRelations_caught:
  "fst (deleteRelations rs c) = Inr () \<and> issued (snd (deleteRelations rs c)) = issued c + length rs"
proof (induction rs arbitrary: c)
  case Nil
  show ?case by (simp add: ret_def)
next
  case (Cons r rs)
  obtain c1 where s: "deleteRelation r c = (Inr (), c1)" and i: "issued c1 = Suc (issued c)"
    using deleteRelation_caught[of r c] by (cases "deleteRelation r c") auto
  have "deleteRelations (r # rs) c = deleteRelations rs c1"
    using s by (simp add: andThen_def)
  then show ?case using Cons.IH[of c1] i by simp
qed

lemma removeTagFromEntity_caught:
  "(\<exists>removed. fst (removeTagFromEntity n t acc c) = Inr removed) \<and>
   issued (snd (removeTagFromEntity n t acc c)) = Suc (issued c)"
  by (simp add: removeTagFromEntity_def tryCatch_def andThen_def ret_def execute_def rejectsNext_def Let_def
        deleteEntityTaggedWith_def split: option.split prod.split sum.split)

lemma removeTagsLoop_caught:
  "(\<exists>removed. fst (removeTagsLoop n ts acc c) = Inr removed) \<and>
   issued (snd (removeTagsLoop n ts acc c)) = issued c + length ts"
proof (induction ts arbitrary: acc c)
  case Nil
  show ?case by (simp add: ret_def)
next
  case (Cons t ts)
  obtain acc1 c1 where s: "removeTagFromEntity n t acc c = (Inr acc1, c1)" and i: "issued c1 = Suc (issued c)"
    using removeTagFromEntity_caught[of n t acc c] by (cases "removeTagFromEntity n t acc c") auto
  have "removeTagsLoop n (t # ts) acc c = removeTagsLoop n ts acc1 c1"
    using s by (simp add: andThen_def)
  then show ?case using Cons.IH[of acc1 c1] i by simp
qed

text \<open>
  C7. Whatever the database rejects, deleteEntities, deleteObservations, deleteRelations
  and removeTagsFromEntity return normally, and every item is attempted: the number of
  statements sent is the number of items (at least that for deleteEntities, which sends
  a second statement for an item whose first one was carried out).
\<close>

theorem delete_paths_never_throw:
  "fst (deleteEntities entityNames c) = Inr () \<and>
   issued c + length entityNames \<le> issued (snd (deleteEntities entityNames c)) \<and>
   fst (deleteObservations deletions c) = Inr () \<and>
   issued (snd (deleteObservations deletions c)) = issued c + length (concat (map snd deletions)) \<and>
   fst (deleteRelations rels c) = Inr () \<and>
   issued (snd (deleteRelations rels c)) = issued c + length rels \<and>
   (\<exists>removedTags. fst (removeTagsFromEntity entityName tagNames c) = Inr removedTags) \<and>
   issued (snd (removeTagsFromEntity entityName tagNames c)) = issued c + length tagNames"
  using deleteEntities_caught[of entityNames c] deleteObservations_caught[of deletions c]
    deleteRelations_caught[of rels c] removeTagsLoop_caught[of entityName tagNames "[]" c]
  by (simp add: removeTagsFromEntity_def)

text \<open>On the sample graph, with a database that rejects the first statement of each call.\<close>

theorem delete_paths_never_throw_witness:
  "fst (deleteEntities [''John_Smith'', ''Anthropic''] ((connect sampleDatabase)\<lparr>faults := [True]\<rparr>)) = Inr () \<and>
   issued ((connect sampleDatabase)\<lparr>faults := [True]\<rparr>) + length [''John_Smith'', ''Anthropic'']
     \<le> issued (snd (deleteEntities [''John_Smith'', ''Anthropic'']
                      ((connect sampleDatabase)\<lparr>faults := [True]\<rparr>))) \<and>
   fst (deleteObservations [(''John_Smith'', [''Speaks fluent Spanish''])]
          ((connect sampleDatabase)\<lparr>faults := [True]\<rparr>)) = Inr () \<and>
   fst (deleteRelations
          [\<lparr>fromName = ''John_Smith'', toName = ''Anthropic'', relationType = ''owns''\<rparr>,
           \<lparr>fromName = ''John_Smith'', toName = ''Anthropic'', relationType = ''works_at''\<rparr>]
          ((connect sampleDatabase)\<lparr>faults := [True]\<rparr>)) = Inr () \<and>
   relatedTo (db (snd (deleteRelations
          [\<lparr>fromName = ''John_Smith'', toName = ''Anthropic'', relationType = ''owns''\<rparr>,
           \<lparr>fromName = ''John_Smith'', toName = ''Anthropic'', relationType = ''works_at''\<rparr>]
          ((connect sampleDatabase)\<lparr>faults := [True]\<rparr>)))) = [] \<and>
   (\<exists>removedTags. fst (removeTagsFromEntity ''John_Smith'' [''vip'']
                          ((connect sampleDatabase)\<lparr>faults := [True]\<rparr>)) = Inr removedTags)"
  using delete_paths_never_throw[of "[''John_Smith'', ''Anthropic'']"
      "(connect sampleDatabase)\<lparr>faults := [True]\<rparr>"
      "[(''John_Smith'', [''Speaks fluent Spanish''])]"
      "[\<lparr>fromName = ''John_Smith'', toName = ''Anthropic'', relationType = ''owns''\<rparr>,
        \<lparr>fromName = ''John_Smith'', toName = ''Anthropic'', relationType = ''works_at''\<rparr>]"
      "''John_Smith''" "[''vip'']"]
  by (simp add: deleteRelation_def deleteRelatedTo_def action_defs literal_plain plain_def
      sampleDatabase_def entityExists_def)

subsection \<open>The methods that rethrow\<close>

lemma propagates_ret: "propagates (ret x)"
  by (simp add: propagates_def ret_def)

lemma propagates_execute: "propagates (execute stmt)"
  by (simp add: propagates_def execute_def Let_def split: option.split prod.split)

lemma propagates_andThen:
  assumes "propagates m" "\<And>x. propagates (f x)"
  shows "propagates (andThen m f)"
  unfolding propagates_def
proof
  fix c
  show "case andThen m f c of
            (Inl err, c') \<Rightarrow> err = StorageFault \<and> failures c' = Suc (failures c)
          | (Inr x, c') \<Rightarrow> failures c' = failures c"
  proof (cases "m c")
    case (Pair r c1)
    show ?thesis
    proof (cases r)
      case (Inl e)
      then show ?thesis using assms(1) Pair
        by (auto simp: propagates_def andThen_def split: prod.splits sum.splits)
    next
      case (Inr x)
      have m: "failures c1 = failures c"
        using assms(1) Pair Inr by (auto simp: propagates_def split: prod.splits sum.splits)
      have "case f x c1 of
            (Inl err, c') \<Rightarrow> err = StorageFault \<and> failures c' = Suc (failures c1)
          | (Inr x, c') \<Rightarrow> failures c' = failures c1"
        using assms(2)[of x] by (simp add: propagates_def)
      then show ?thesis using Pair Inr m
        by (auto simp: andThen_def split: prod.splits sum.splits)
    qed
  qed
qed

lemma propagates_rethrow: "propagates m \<Longrightarrow> propagates (tryCatch m (\<lambda>error. throw error))"
  by (auto simp: propagates_def tryCatch_def throw_def split: prod.splits sum.splits)

lemma propagates_if: "propagates m1 \<Longrightarrow> propagates m2 \<Longrightarrow> propagates (if b then m1 else m2)"
  by simp

lemma propagates_createObservations: "propagates (createObservations n obs)"
  by (induction obs) (simp_all add: propagates_ret propagates_andThen propagates_execute)

lemma propagates_createEntityTags: "propagates (createEntityTags n ts)"
  by (induction ts) (simp_all add: propagates_ret propagates_andThen propagates_execute)

lemma propagates_createEntity: "propagates (createEntity e acc)"
  unfolding createEntity_def
  by (intro propagates_rethrow propagates_andThen propagates_execute)
     (simp add: propagates_ret propagates_andThen propagates_execute
        propagates_createObservations propagates_createEntityTags split: option.split)

lemma propagates_createEntitiesLoop: "propagates (createEntitiesLoop es acc)"
  by (induction es arbitrary: acc) (simp_all add: propagates_ret propagates_andThen propagates_createEntity)

lemma propagates_createRelation: "propagates (createRelation r acc)"
  unfolding createRelation_def
  by (intro propagates_rethrow propagates_andThen propagates_execute)
     (simp add: propagates_ret propagates_andThen propagates_execute)

lemma propagates_createRelationsLoop: "propagates (createRelationsLoop rs acc)"
  by (induction rs arbitrary: acc) (simp_all add: propagates_ret propagates_andThen propagates_createRelation)

lemma andThen_abort: "m c = (Inl err, c') \<Longrightarrow> andThen m f c = (Inl err, c')"
  by (simp add: andThen_def)


text \<open>The statements sent are counted: no step takes one back.\<close>

lemma issued_ret: "issued c \<le> issued (snd (ret x c))"
  by (simp add: ret_def)

lemma issued_execute: "issued c \<le> issued (snd (execute stmt c))"
  by (simp add: execute_def Let_def split: option.split prod.split)

lemma issued_andThen:
  assumes "\<And>c. issued c \<le> issued (snd (m c))" "\<And>x c. issued c \<le> issued (snd (f x c))"
  shows "issued c \<le> issued (snd (andThen m f c))"
proof (cases "m c")
  case (Pair r c1)
  have a: "issued c \<le> issued c1" using assms(1)[of c] Pair by simp
  show ?thesis
  proof (cases r)
    case (Inl e)
    then show ?thesis using Pair a by (simp add: andThen_def)
  next
    case (Inr x)
    then show ?thesis using Pair a assms(2)[of c1 x] by (simp add: andThen_def)
  qed
qed

lemma issued_execute_andThen:
  assumes "\<And>x c. issued c \<le> issued (snd (f x c))"
  shows "issued c < issued (snd (andThen (execute stmt) f c))"
proof (cases "execute stmt c")
  case (Pair r c1)
  have a: "issued c1 = Suc (issued c)" using execute_issued[of stmt c] Pair by simp
  show ?thesis
  proof (cases r)
    case (Inl e)
    then show ?thesis using Pair a by (simp add: andThen_def)
  next
    case (Inr x)
    then show ?thesis using Pair a assms[of c1 x] by (simp add: andThen_def)
  qed
qed

text \<open>
  A try whose catch returns the list it had: it returns normally whatever the database
  rejects, and when a statement of the body failed it returns that list.
\<close>

lemma tryCatch_caught:
  assumes "propagates m" "\<And>c. issued c < issued (snd (m c))"
  shows "\<exists>added c1. tryCatch m (\<lambda>error. ret acc) c = (Inr added, c1) \<and> issued c < issued c1 \<and>
           (failures c1 \<noteq> failures c \<longrightarrow> added = acc)"
proof (cases "m c")
  case (Pair r c1)
  have a: "issued c < issued c1" using assms(2)[of c] Pair by simp
  show ?thesis
  proof (cases r)
    case (Inl e)
    then show ?thesis using Pair a by (simp add: tryCatch_def ret_def)
  next
    case (Inr x)
    then have "failures c1 = failures c"
      using assms(1) Pair by (auto simp: propagates_def split: prod.splits sum.splits)
    then show ?thesis using Pair Inr a by (simp add: tryCatch_def)
  qed
qed

text \<open>
  One content of addObservations: whatever the database rejects, the step returns
  normally, after at least one statement, and a content with a failed statement is not
  reported.
\<close>

lemma addObservation_caught:
  "\<exists>added c1. addObservation n content acc c = (Inr added, c1) \<and> issued c < issued c1 \<and>
     (failures c1 \<noteq> failures c \<longrightarrow> added = acc)"
  unfolding addObservation_def
  by (intro tryCatch_caught propagates_andThen propagates_execute issued_execute_andThen)
     (simp_all add: propagates_ret propagates_andThen propagates_execute
        issued_ret issued_andThen issued_execute)

lemma addObservationContents_caught:
  "\<exists>added c1. addObservationContents n contents acc c = (Inr added, c1) \<and>
     issued c + length contents \<le> issued c1"
proof (induction contents arbitrary: acc c)
  case Nil
  show ?case by (simp add: ret_def)
next
  case (Cons content contents)
  obtain acc1 c1 where s: "addObservation n content acc c = (Inr acc1, c1)" "issued c < issued c1"
    using addObservation_caught by blast
  then have "addObservationContents n (content # contents) acc c = addObservationContents n contents acc1 c1"
    by (simp add: andThen_def)
  moreover obtain acc2 c2 where "addObservationContents n contents acc1 c1 = (Inr acc2, c2)"
      "issued c1 + length contents \<le> issued c2"
    using Cons.IH[of acc1 c1] by blast
  ultimately show ?case using s(2) by simp
qed

lemma addObservationsEntry_rejected:
  "rejectsNext c \<Longrightarrow> addObservationsEntry obs results c =
     (Inl StorageFault, c\<lparr>faults := tl (faults c), issued := Suc (issued c), failures := Suc (failures c)\<rparr>)"
  by (simp add: addObservationsEntry_def tryCatch_def andThen_def throw_def execute_def)

lemma addObservationsEntry_missing:
  "\<not> rejectsNext c \<Longrightarrow> plain (fst obs) \<Longrightarrow> \<not> entityExists (db c) (fst obs) \<Longrightarrow>
   addObservationsEntry obs results c =
     (Inl NotFound, c\<lparr>faults := tl (faults c), issued := Suc (issued c)\<rparr>)"
  by (simp add: addObservationsEntry_def tryCatch_def andThen_def throw_def execute_def
        literal_plain matchEntity_def entityExists_def filter_fst_nil)

lemma addObservationsEntry_found:
  assumes "\<not> rejectsNext c" "plain (fst obs)" "entityExists (db c) (fst obs)"
  shows "\<exists>added c1.
           addObservationContents (fst obs) (snd obs) []
             (c\<lparr>faults := tl (faults c), issued := Suc (issued c)\<rparr>) = (Inr added, c1) \<and>
           addObservationsEntry obs results c = (Inr (results @ [(fst obs, added)]), c1) \<and>
           Suc (issued c) + length (snd obs) \<le> issued c1"
proof -
  let ?c1 = "c\<lparr>faults := tl (faults c), issued := Suc (issued c)\<rparr>"
  obtain added c' where a: "addObservationContents (fst obs) (snd obs) [] ?c1 = (Inr added, c')"
      "issued ?c1 + length (snd obs) \<le> issued c'"
    using addObservationContents_caught by blast
  then have "addObservationsEntry obs results c = (Inr (results @ [(fst obs, added)]), c')"
    using assms
    by (simp add: addObservationsEntry_def tryCatch_def andThen_def ret_def execute_def
        literal_plain matchEntity_def entityExists_def filter_fst_nil)
  then show ?thesis using a by simp
qed

text \<open>The same for one tag of tagEntity.\<close>

lemma tagEntityWith_caught:
  "\<exists>added c1. tagEntityWith n t acc c = (Inr added, c1) \<and> issued c < issued c1 \<and>
     (failures c1 \<noteq> failures c \<longrightarrow> added = acc)"
  unfolding tagEntityWith_def
  by (intro tryCatch_caught propagates_andThen propagates_execute issued_execute_andThen
        issued_andThen)
     (simp_all add: propagates_ret propagates_andThen propagates_execute
        issued_ret issued_andThen issued_execute)

lemma tagEntityLoop_caught:
  "\<exists>added c1. tagEntityLoop n ts acc c = (Inr added, c1) \<and> issued c + length ts \<le> issued c1"
proof (induction ts arbitrary: acc c)
  case Nil
  show ?case by (simp add: ret_def)
next
  case (Cons t ts)
  obtain acc1 c1 where s: "tagEntityWith n t acc c = (Inr acc1, c1)" "issued c < issued c1"
    using tagEntityWith_caught by blast
  then have "tagEntityLoop n (t # ts) acc c = tagEntityLoop n ts acc1 c1"
    by (simp add: andThen_def)
  moreover obtain acc2 c2 where "tagEntityLoop n ts acc1 c1 = (Inr acc2, c2)"
      "issued c1 + length ts \<le> issued c2"
    using Cons.IH[of acc1 c1] by blast
  ultimately show ?case using s(2) by simp
qed

lemma tagEntity_rejected:
  "rejectsNext c \<Longrightarrow> tagEntity n ts c =
     (Inl StorageFault, c\<lparr>faults := tl (faults c), issued := Suc (issued c), failures := Suc (failures c)\<rparr>)"
  by (simp add: tagEntity_def tryCatch_def andThen_def throw_def execute_def)

lemma tagEntity_missing:
  "\<not> rejectsNext c \<Longrightarrow> plain n \<Longrightarrow> \<not> entityExists (db c) n \<Longrightarrow>
   tagEntity n ts c = (Inl NotFound, c\<lparr>faults := tl (faults c), issued := Suc (issued c)\<rparr>)"
  by (simp add: tagEntity_def tryCatch_def andThen_def throw_def execute_def
        literal_plain matchEntity_def entityExists_def filter_fst_nil)

lemma tagEntity_found:
  assumes "\<not> rejectsNext c" "plain n" "entityExists (db c) n"
  shows "\<exists>added c1.
           tagEntityLoop n ts [] (c\<lparr>faults := tl (faults c), issued := Suc (issued c)\<rparr>) =
             (Inr added, c1) \<and>
           tagEntity n ts c = (Inr added, c1) \<and> Suc (issued c) + length ts \<le> issued c1"
proof -
  let ?c1 = "c\<lparr>faults := tl (faults c), issued := Suc (issued c)\<rparr>"
  obtain added c' where a: "tagEntityLoop n ts [] ?c1 = (Inr added, c')"
      "issued ?c1 + length ts \<le> issued c'"
    using tagEntityLoop_caught by blast
  then have "tagEntity n ts c = (Inr added, c')"
    using assms
    by (simp add: tagEntity_def tryCatch_def andThen_def ret_def execute_def
        literal_plain matchEntity_def entityExists_def filter_fst_nil)
  then show ?thesis using a by simp
qed

text \<open>
  C3, as the claim states it, fails for addObservations and tagEntity. On the sample graph
  the database rejects the second statement of the call, the look-up of the first content
  (of the first tag): the fault is counted, the call returns normally all the same, and
  the item after the failed one is processed and reported.
\<close>

theorem inner_fault_is_swallowed:
  "fst (addObservations [(''John_Smith'', [''x'', ''y''])]
          ((connect sampleDatabase)\<lparr>faults := [False, True]\<rparr>)) =
     Inr [(''John_Smith'', [''y''])] \<and>
   failures (snd (addObservations [(''John_Smith'', [''x'', ''y''])]
          ((connect sampleDatabase)\<lparr>faults := [False, True]\<rparr>))) = 1 \<and>
   fst (tagEntity ''John_Smith'' [''vip'', ''staff'']
          ((connect sampleDatabase)\<lparr>faults := [False, True]\<rparr>)) = Inr [''staff''] \<and>
   failures (snd (tagEntity ''John_Smith'' [''vip'', ''staff'']
          ((connect sampleDatabase)\<lparr>faults := [False, True]\<rparr>))) = 1"
  by (simp add: addObservations_def addObservationsEntry_def addObservation_def
      tagEntity_def tagEntityWith_def action_defs literal_plain plain_def
      matchEntity_def matchEntityObservation_def createObservationNode_def
      createHasObservationIfAbsent_def matchTag_def createTagNode_def
      matchEntityTaggedWith_def createEntityTaggedWith_def
      linkedObservations_def entityExists_def tagExists_def sampleDatabase_def)

text \<open>
  C3, amended. createEntities and createRelations end in an error exactly when the
  database rejects a statement; the error is that fault, it is the only rejected statement
  of the call, and the call ends in the state the failed item left, so no later item is
  processed. addObservations throws for an entry, and tagEntity throws, when the
  entity-existence check is rejected (the fault) or, for a name without a backslash, finds
  no entity (NotFound), after that one statement and with nothing more processed. Once
  the check has found the entity, the entry or call returns normally whatever the
  database rejects, with what the loop over the contents or tags returns, and every
  content or tag has had its statement. In that loop one content or tag returns normally
  whatever the database rejects, after at least one statement; when a statement of it
  failed it is not added to the list that is returned; and in every case the loop goes on
  with the contents or tags that follow, from the state that one left.
\<close>

theorem create_paths_propagation:
  "(case createEntities ents c of
      (Inl err, c') \<Rightarrow> err = StorageFault \<and> failures c' = Suc (failures c)
    | (Inr created, c') \<Rightarrow> failures c' = failures c) \<and>
   (createEntity e newEntities c = (Inl err, c') \<longrightarrow>
      createEntitiesLoop (e # ents) newEntities c = (Inl err, c')) \<and>
   (case createRelations rels c of
      (Inl err, c') \<Rightarrow> err = StorageFault \<and> failures c' = Suc (failures c)
    | (Inr created, c') \<Rightarrow> failures c' = failures c) \<and>
   (createRelation r newRelations c = (Inl err, c') \<longrightarrow>
      createRelationsLoop (r # rels) newRelations c = (Inl err, c')) \<and>
   (rejectsNext c \<longrightarrow>
      addObservationsEntry obs results c =
        (Inl StorageFault,
         c\<lparr>faults := tl (faults c), issued := Suc (issued c), failures := Suc (failures c)\<rparr>)) \<and>
   (\<not> rejectsNext c \<and> plain (fst obs) \<and> \<not> entityExists (db c) (fst obs) \<longrightarrow>
      addObservationsEntry obs results c =
        (Inl NotFound, c\<lparr>faults := tl (faults c), issued := Suc (issued c)\<rparr>)) \<and>
   (\<not> rejectsNext c \<and> plain (fst obs) \<and> entityExists (db c) (fst obs) \<longrightarrow>
      (\<exists>added c1.
         addObservationContents (fst obs) (snd obs) []
           (c\<lparr>faults := tl (faults c), issued := Suc (issued c)\<rparr>) = (Inr added, c1) \<and>
         addObservationsEntry obs results c = (Inr (results @ [(fst obs, added)]), c1) \<and>
         Suc (issued c) + length (snd obs) \<le> issued c1)) \<and>
   (addObservationsEntry obs results c = (Inl err, c') \<longrightarrow>
      addObservationsLoop (obs # obsList) results c = (Inl err, c')) \<and>
   (\<exists>added c1.
      addObservation entityName content addedObservations c = (Inr added, c1) \<and>
      issued c < issued c1 \<and>
      (failures c1 \<noteq> failures c \<longrightarrow> added = addedObservations) \<and>
      addObservationContents entityName (content # contents) addedObservations c =
        addObservationContents entityName contents added c1) \<and>
   (rejectsNext c \<longrightarrow>
      tagEntity entityName tagNames c =
        (Inl StorageFault,
         c\<lparr>faults := tl (faults c), issued := Suc (issued c), failures := Suc (failures c)\<rparr>)) \<and>
   (\<not> rejectsNext c \<and> plain entityName \<and> \<not> entityExists (db c) entityName \<longrightarrow>
      tagEntity entityName tagNames c =
        (Inl NotFound, c\<lparr>faults := tl (faults c), issued := Suc (issued c)\<rparr>)) \<and>
   (\<not> rejectsNext c \<and> plain entityName \<and> entityExists (db c) entityName \<longrightarrow>
      (\<exists>addedTags c1.
         tagEntityLoop entityName tagNames []
           (c\<lparr>faults := tl (faults c), issued := Suc (issued c)\<rparr>) = (Inr addedTags, c1) \<and>
         tagEntity entityName tagNames c = (Inr addedTags, c1) \<and>
         Suc (issued c) + length tagNames \<le> issued c1)) \<and>
   (\<exists>added c1.
      tagEntityWith entityName tagName addedTags c = (Inr added, c1) \<and>
      issued c < issued c1 \<and>
      (failures c1 \<noteq> failures c \<longrightarrow> added = addedTags) \<and>
      tagEntityLoop entityName (tagName # tagNames) addedTags c =
        tagEntityLoop entityName tagNames added c1)"
proof -
  have 1: "case createEntities ents c of
      (Inl err, c') \<Rightarrow> err = StorageFault \<and> failures c' = Suc (failures c)
    | (Inr created, c') \<Rightarrow> failures c' = failures c"
    using propagates_createEntitiesLoop[of ents "[]"]
    by (simp add: propagates_def createEntities_def)
  have 2: "case createRelations rels c of
      (Inl err, c') \<Rightarrow> err = StorageFault \<and> failures c' = Suc (failures c)
    | (Inr created, c') \<Rightarrow> failures c' = failures c"
    using propagates_createRelationsLoop[of rels "[]"]
    by (simp add: propagates_def createRelations_def)
  have 3: "\<not> rejectsNext c \<and> plain (fst obs) \<and> entityExists (db c) (fst obs) \<longrightarrow>
      (\<exists>added c1.
         addObservationContents (fst obs) (snd obs) []
           (c\<lparr>faults := tl (faults c), issued := Suc (issued c)\<rparr>) = (Inr added, c1) \<and>
         addObservationsEntry obs results c = (Inr (results @ [(fst obs, added)]), c1) \<and>
         Suc (issued c) + length (snd obs) \<le> issued c1)"
    using addObservationsEntry_found[of c obs results] by blast
  have 4: "\<not> rejectsNext c \<and> plain entityName \<and> entityExists (db c) entityName \<longrightarrow>
      (\<exists>addedTags c1.
         tagEntityLoop entityName tagNames []
           (c\<lparr>faults := tl (faults c), issued := Suc (issued c)\<rparr>) = (Inr addedTags, c1) \<and>
         tagEntity entityName tagNames c = (Inr addedTags, c1) \<and>
         Suc (issued c) + length tagNames \<le> issued c1)"
    using tagEntity_found[of c entityName tagNames] by blast
  obtain added c1 where a: "addObservation entityName content addedObservations c = (Inr added, c1)"
      "issued c < issued c1" "failures c1 \<noteq> failures c \<longrightarrow> added = addedObservations"
    using addObservation_caught[of entityName content addedObservations c] by blast
  have "addObservationContents entityName (content # contents) addedObservations c =
        addObservationContents entityName contents added c1"
    using a(1) by (simp add: andThen_def)
  then have 5: "\<exists>added c1.
      addObservation entityName content addedObservations c = (Inr added, c1) \<and>
      issued c < issued c1 \<and>
      (failures c1 \<noteq> failures c \<longrightarrow> added = addedObservations) \<and>
      addObservationContents entityName (content # contents) addedObservations c =
        addObservationContents entityName contents added c1"
    using a by blast
  obtain added' c2 where b: "tagEntityWith entityName tagName addedTags c = (Inr added', c2)"
      "issued c < issued c2" "failures c2 \<noteq> failures c \<longrightarrow> added' = addedTags"
    using tagEntityWith_caught[of entityName tagName addedTags c] by blast
  have "tagEntityLoop entityName (tagName # tagNames) addedTags c =
        tagEntityLoop entityName tagNames added' c2"
    using b(1) by (simp add: andThen_def)
  then have 6: "\<exists>added c1.
      tagEntityWith entityName tagName addedTags c = (Inr added, c1) \<and>
      issued c < issued c1 \<and>
      (failures c1 \<noteq> failures c \<longrightarrow> added = addedTags) \<and>
      tagEntityLoop entityName (tagName # tagNames) addedTags c =
        tagEntityLoop entityName tagNames added c1"
    using b by blast
  have 7: "createEntity e newEntities c = (Inl err, c') \<longrightarrow>
      createEntitiesLoop (e # ents) newEntities c = (Inl err, c')"
    by (simp add: andThen_abort)
  have 8: "createRelation r newRelations c = (Inl err, c') \<longrightarrow>
      createRelationsLoop (r # rels) newRelations c = (Inl err, c')"
    by (simp add: andThen_abort)
  have 9: "addObservationsEntry obs results c = (Inl err, c') \<longrightarrow>
      addObservationsLoop (obs # obsList) results c = (Inl err, c')"
    by (simp add: andThen_abort)
  have 10: "rejectsNext c \<longrightarrow>
      addObservationsEntry obs results c =
        (Inl StorageFault,
         c\<lparr>faults := tl (faults c), issued := Suc (issued c), failures := Suc (failures c)\<rparr>)"
    by (simp add: addObservationsEntry_rejected)
  have 11: "\<not> rejectsNext c \<and> plain (fst obs) \<and> \<not> entityExists (db c) (fst obs) \<longrightarrow>
      addObservationsEntry obs results c =
        (Inl NotFound, c\<lparr>faults := tl (faults c), issued := Suc (issued c)\<rparr>)"
    by (simp add: addObservationsEntry_missing)
  have 12: "rejectsNext c \<longrightarrow>
      tagEntity entityName tagNames c =
        (Inl StorageFault,
         c\<lparr>faults := tl (faults c), issued := Suc (issued c), failures := Suc (failures c)\<rparr>)"
    by (simp add: tagEntity_rejected)
  have 13: "\<not> rejectsNext c \<and> plain entityName \<and> \<not> entityExists (db c) entityName \<longrightarrow>
      tagEntity entityName tagNames c =
        (Inl NotFound, c\<lparr>faults := tl (faults c), issued := Suc (issued c)\<rparr>)"
    by (simp add: tagEntity_missing)
  show ?thesis
    by (intro conjI 1 7 2 8 10 11 3 9 5 12 13 4 6)
qed

text \<open>
  On the sample graph: a database that rejects the first statement, for the four calls
  that throw the fault; one that rejects nothing, for Ghost, who is not stored, and for
  John_Smith, who is; and one that rejects the look-up of the content x (of the tag
  vip) of John_Smith, after which the loop goes on with the content y (the tag staff).
\<close>

theorem create_paths_propagation_witness:
  "rejectsNext \<lparr>db = sampleDatabase, faults = [True], issued = 0, failures = 0\<rparr> \<and>
   createEntitiesLoop
     [\<lparr>name = ''Ghost'', entityType = ''person'', observations = [], tags = None\<rparr>,
      \<lparr>name = ''Other'', entityType = ''person'', observations = [], tags = None\<rparr>] []
     \<lparr>db = sampleDatabase, faults = [True], issued = 0, failures = 0\<rparr> =
     (Inl StorageFault, \<lparr>db = sampleDatabase, faults = [], issued = 1, failures = 1\<rparr>) \<and>
   createRelationsLoop
     [\<lparr>fromName = ''John_Smith'', toName = ''Anthropic'', relationType = ''owns''\<rparr>,
      \<lparr>fromName = ''Anthropic'', toName = ''John_Smith'', relationType = ''employs''\<rparr>] []
     \<lparr>db = sampleDatabase, faults = [True], issued = 0, failures = 0\<rparr> =
     (Inl StorageFault, \<lparr>db = sampleDatabase, faults = [], issued = 1, failures = 1\<rparr>) \<and>
   addObservationsLoop [(''John_Smith'', [''x'']), (''Anthropic'', [''y''])] []
     \<lparr>db = sampleDatabase, faults = [True], issued = 0, failures = 0\<rparr> =
     (Inl StorageFault, \<lparr>db = sampleDatabase, faults = [], issued = 1, failures = 1\<rparr>) \<and>
   tagEntity ''John_Smith'' [''vip'']
     \<lparr>db = sampleDatabase, faults = [True], issued = 0, failures = 0\<rparr> =
     (Inl StorageFault, \<lparr>db = sampleDatabase, faults = [], issued = 1, failures = 1\<rparr>) \<and>
   \<not> rejectsNext \<lparr>db = sampleDatabase, faults = [], issued = 0, failures = 0\<rparr> \<and>
   plain ''Ghost'' \<and> plain ''John_Smith'' \<and>
   \<not> entityExists sampleDatabase ''Ghost'' \<and>
   entityExists sampleDatabase ''John_Smith'' \<and>
   addObservationsEntry (''Ghost'', [''x'']) []
     \<lparr>db = sampleDatabase, faults = [], issued = 0, failures = 0\<rparr> =
     (Inl NotFound, \<lparr>db = sampleDatabase, faults = [], issued = 1, failures = 0\<rparr>) \<and>
   tagEntity ''Ghost'' [''vip''] \<lparr>db = sampleDatabase, faults = [], issued = 0, failures = 0\<rparr> =
     (Inl NotFound, \<lparr>db = sampleDatabase, faults = [], issued = 1, failures = 0\<rparr>) \<and>
   (\<exists>added c1. addObservationsEntry (''John_Smith'', [''x'']) []
                   \<lparr>db = sampleDatabase, faults = [], issued = 0, failures = 0\<rparr> =
                 (Inr [(''John_Smith'', added)], c1) \<and> 2 \<le> issued c1) \<and>
   (\<exists>addedTags c1. tagEntity ''John_Smith'' [''vip'']
                       \<lparr>db = sampleDatabase, faults = [], issued = 0, failures = 0\<rparr> =
                     (Inr addedTags, c1) \<and> 2 \<le> issued c1) \<and>
   addObservationContents ''John_Smith'' [''x'', ''y''] []
     \<lparr>db = sampleDatabase, faults = [True], issued = 1, failures = 0\<rparr> =
     addObservationContents ''John_Smith'' [''y''] []
       \<lparr>db = sampleDatabase, faults = [], issued = 2, failures = 1\<rparr> \<and>
   tagEntityLoop ''John_Smith'' [''vip'', ''staff''] []
     \<lparr>db = sampleDatabase, faults = [True], issued = 1, failures = 0\<rparr> =
     tagEntityLoop ''John_Smith'' [''staff''] []
       \<lparr>db = sampleDatabase, faults = [], issued = 2, failures = 1\<rparr>"
proof -
  define rej where "rej = \<lparr>db = sampleDatabase, faults = [True], issued = 0, failures = 0\<rparr>"
  define c0 where "c0 = \<lparr>db = sampleDatabase, faults = [], issued = 0, failures = 0\<rparr>"
  define after where "after = \<lparr>db = sampleDatabase, faults = [], issued = 1, failures = 1\<rparr>"
  define mid where "mid = \<lparr>db = sampleDatabase, faults = [True], issued = 1, failures = 0\<rparr>"
  define late where "late = \<lparr>db = sampleDatabase, faults = [], issued = 2, failures = 1\<rparr>"
  define ghost where
    "ghost = \<lparr>name = ''Ghost'', entityType = ''person'', observations = [], tags = None\<rparr>"
  define other where
    "other = \<lparr>name = ''Other'', entityType = ''person'', observations = [], tags = None\<rparr>"
  define owns where
    "owns = \<lparr>fromName = ''John_Smith'', toName = ''Anthropic'', relationType = ''owns''\<rparr>"
  define employs where
    "employs = \<lparr>fromName = ''Anthropic'', toName = ''John_Smith'', relationType = ''employs''\<rparr>"
  have rej: "rejectsNext rej" by (simp add: rejectsNext_def rej_def)
  have quiet: "\<not> rejectsNext c0" by (simp add: rejectsNext_def c0_def)
  have pg: "plain ''Ghost''" by (simp add: plain_def)
  have pj: "plain ''John_Smith''" by (simp add: plain_def)
  have ghost: "\<not> entityExists (db c0) ''Ghost''"
    by (simp add: entityExists_def c0_def sampleDatabase_def)
  have john: "entityExists (db c0) ''John_Smith''"
    by (simp add: entityExists_def c0_def sampleDatabase_def)
  have ce: "createEntity ghost [] rej = (Inl StorageFault, after)"
    by (simp add: createEntity_def action_defs rej_def after_def)
  have cr: "createRelation owns [] rej = (Inl StorageFault, after)"
    by (simp add: createRelation_def action_defs rej_def after_def)
  have ao: "addObservation ''John_Smith'' ''x'' [] mid = (Inr [], late)"
    by (simp add: addObservation_def action_defs mid_def late_def)
  have tw: "tagEntityWith ''John_Smith'' ''vip'' [] mid = (Inr [], late)"
    by (simp add: tagEntityWith_def action_defs mid_def late_def)
  have upd: "rej\<lparr>faults := tl (faults rej), issued := Suc (issued rej),
                  failures := Suc (failures rej)\<rparr> = after"
    by (simp add: rej_def after_def)
  have upd0: "c0\<lparr>faults := tl (faults c0), issued := Suc (issued c0)\<rparr> =
              \<lparr>db = sampleDatabase, faults = [], issued = 1, failures = 0\<rparr>"
    by (simp add: c0_def)
  note t1 = create_paths_propagation[where ents = "[other]" and c = rej and e = ghost
      and newEntities = "[]" and err = StorageFault and c' = after and rels = "[employs]"
      and r = owns and newRelations = "[]" and obs = "(''John_Smith'', [''x''])"
      and results = "[]" and obsList = "[(''Anthropic'', [''y''])]"
      and entityName = "''John_Smith''" and tagNames = "[''vip'']"]
  note t2 = create_paths_propagation[where c = c0
      and obs = "(''Ghost'', [''x''])" and results = "[]"
      and entityName = "''Ghost''" and tagNames = "[''vip'']"]
  note t3 = create_paths_propagation[where c = c0
      and obs = "(''John_Smith'', [''x''])" and results = "[]"
      and entityName = "''John_Smith''" and tagNames = "[''vip'']"]
  note t4 = create_paths_propagation[where c = mid
      and entityName = "''John_Smith''" and content = "''x''" and addedObservations = "[]"
      and contents = "[''y'']" and tagName = "''vip''" and addedTags = "[]"
      and tagNames = "[''staff'']"]
  have a: "createEntitiesLoop [ghost, other] [] rej = (Inl StorageFault, after)"
    using t1 ce by blast
  have b: "createRelationsLoop [owns, employs] [] rej = (Inl StorageFault, after)"
    using t1 cr by blast
  have "addObservationsEntry (''John_Smith'', [''x'']) [] rej = (Inl StorageFault, after)"
    using t1 rej unfolding upd by blast
  then have c: "addObservationsLoop [(''John_Smith'', [''x'']), (''Anthropic'', [''y''])] [] rej =
      (Inl StorageFault, after)"
    using t1 by blast
  have d: "tagEntity ''John_Smith'' [''vip''] rej = (Inl StorageFault, after)"
    using t1 rej unfolding upd by blast
  have e: "addObservationsEntry (''Ghost'', [''x'']) [] c0 =
      (Inl NotFound, \<lparr>db = sampleDatabase, faults = [], issued = 1, failures = 0\<rparr>)"
    using t2 quiet pg ghost unfolding upd0 by simp
  have f: "tagEntity ''Ghost'' [''vip''] c0 =
      (Inl NotFound, \<lparr>db = sampleDatabase, faults = [], issued = 1, failures = 0\<rparr>)"
    using t2 quiet pg ghost unfolding upd0 by simp
  have "\<exists>added c1.
         addObservationContents ''John_Smith'' [''x''] []
           (c0\<lparr>faults := tl (faults c0), issued := Suc (issued c0)\<rparr>) = (Inr added, c1) \<and>
         addObservationsEntry (''John_Smith'', [''x'']) [] c0 = (Inr ([] @ [(''John_Smith'', added)]), c1) \<and>
         Suc (issued c0) + length [''x''] \<le> issued c1"
    using t3 quiet pj john by simp
  then have g: "\<exists>added c1. addObservationsEntry (''John_Smith'', [''x'']) [] c0 =
              (Inr [(''John_Smith'', added)], c1) \<and> 2 \<le> issued c1"
    by (auto simp: c0_def)
  have "\<exists>addedTags c1.
         tagEntityLoop ''John_Smith'' [''vip''] []
           (c0\<lparr>faults := tl (faults c0), issued := Suc (issued c0)\<rparr>) = (Inr addedTags, c1) \<and>
         tagEntity ''John_Smith'' [''vip''] c0 = (Inr addedTags, c1) \<and>
         Suc (issued c0) + length [''vip''] \<le> issued c1"
    using t3 quiet pj john by simp
  then have h: "\<exists>addedTags c1. tagEntity ''John_Smith'' [''vip''] c0 = (Inr addedTags, c1) \<and>
      2 \<le> issued c1"
    by (auto simp: c0_def)
  have i: "addObservationContents ''John_Smith'' [''x'', ''y''] [] mid =
      addObservationContents ''John_Smith'' [''y''] [] late"
    using t4 ao by auto
  have j: "tagEntityLoop ''John_Smith'' [''vip'', ''staff''] [] mid =
      tagEntityLoop ''John_Smith'' [''staff''] [] late"
    using t4 tw by auto
  have ghost': "\<not> entityExists sampleDatabase ''Ghost''" using ghost by (simp add: c0_def)
  have john': "entityExists sampleDatabase ''John_Smith''" using john by (simp add: c0_def)
  show ?thesis
    using rej quiet pg pj ghost' john' a b c d e f g h i j
    unfolding rej_def c0_def after_def mid_def late_def ghost_def other_def owns_def employs_def
    by blast
qed

subsection \<open>addObservations on an entity that is not stored\<close>


















subsection \<open>deleteEntities and readGraph\<close>











lemma relatedTo_detached:
  "r \<in> set (relatedTo (detached n g)) \<Longrightarrow> entityExists g n \<Longrightarrow> fst r \<noteq> n \<and> fst (snd r) \<noteq> n"
  by (auto simp: detached_def detachDeleteEntity_def)





end
